theory Spec2Isabelle
  imports Main
begin

section \<open>The assembler of \<open>src/parser.ts\<close>\<close>

text \<open>
  The source is one TypeScript module: the execution state of a small CPU (\<open>REG\<close>,
  \<open>MEM\<close>, \<open>OUT\<close>, \<open>TIME\<close>, \<open>COUNTER\<close>), one semantic action per mnemonic, the
  tables \<open>PATTERNS\<close> and \<open>INSTRUCTION_NUMBERS\<close>, and the parser \<open>parseLine\<close> /
  \<open>parse\<close> that turns a line of text into an instruction with its 16-bit word in
  hexadecimal. The embedding below follows the module top to bottom.
\<close>

subsection \<open>Strings and numbers of the source language\<close>

text \<open>
  A JavaScript string is a sequence of UTF-16 code units. A code unit is modelled as a
  natural number, so that the white space and line terminators beyond ASCII that
  \<open>trim\<close> and the regular expression \<open>.\<close> know are part of the model. \<open>js\<close> embeds an
  ASCII literal.
\<close>

type_synonym code_unit = nat
type_synonym jsstring = "code_unit list"

definition js :: "string \<Rightarrow> jsstring" where
  "js s = map of_char s"

text \<open>
  The numbers the module computes with are IEEE doubles. Every number the parser
  produces is a non-negative integer or \<open>+Infinity\<close> (\<open>parseInt\<close> of a digit string), and
  sums, differences and products of integral doubles are integral, infinite or \<open>NaN\<close>.
  \<open>Num i\<close> is the double of integral value \<open>i\<close>; \<open>-0\<close> is identified with \<open>0\<close>, which
  \<open>!==\<close>, \<open>>=\<close>, \<open><<\<close> and property keys do not tell apart.
\<close>

datatype number = NaN | PosInf | NegInf | Num int

text \<open>
  Rounding an integer to the nearest double, ties to even: 53 significant bits are
  kept, and a result of \<open>2 ^ 1024\<close> or more is infinite.
\<close>

fun bit_length :: "nat \<Rightarrow> nat" where
  "bit_length n = (if n = 0 then 0 else Suc (bit_length (n div 2)))"

declare bit_length.simps [simp del]

definition round_nat :: "nat \<Rightarrow> nat" where
  "round_nat n =
     (if n < 2 ^ 53 then n
      else let e = bit_length n - 53;
               q = n div 2 ^ e;
               r = n mod 2 ^ e;
               h = 2 ^ (e - 1);
               q' = (if h < r \<or> (r = h \<and> odd q) then q + 1 else q)
           in q' * 2 ^ e)"

definition to_double :: "int \<Rightarrow> number" where
  "to_double i =
     (let m = round_nat (nat \<bar>i\<bar>) in
      if 2 ^ 1024 \<le> m then (if i < 0 then NegInf else PosInf)
      else Num (if i < 0 then - int m else int m))"

text \<open>\<open>a + b\<close> on numbers: the exact sum, rounded.\<close>

fun num_add :: "number \<Rightarrow> number \<Rightarrow> number" where
  "num_add (Num a) (Num b) = to_double (a + b)"
| "num_add NaN _ = NaN"
| "num_add _ NaN = NaN"
| "num_add PosInf NegInf = NaN"
| "num_add NegInf PosInf = NaN"
| "num_add PosInf _ = PosInf"
| "num_add NegInf _ = NegInf"
| "num_add _ PosInf = PosInf"
| "num_add _ NegInf = NegInf"

text \<open>\<open>a >= b\<close> and \<open>a > b\<close> for an integral bound \<open>b\<close>; false when \<open>a\<close> is \<open>NaN\<close>.\<close>

fun num_ge :: "number \<Rightarrow> int \<Rightarrow> bool" where
  "num_ge (Num a) b = (b \<le> a)"
| "num_ge PosInf b = True"
| "num_ge NegInf b = False"
| "num_ge NaN b = False"

fun num_gt :: "number \<Rightarrow> int \<Rightarrow> bool" where
  "num_gt (Num a) b = (b < a)"
| "num_gt PosInf b = True"
| "num_gt NegInf b = False"
| "num_gt NaN b = False"

text \<open>
  \<open>ToInt32\<close>: \<open>NaN\<close> and the infinities become 0, an integer is taken modulo \<open>2 ^ 32\<close>
  into the signed range. \<open>a << k\<close> shifts the 32-bit value by \<open>k mod 32\<close> and wraps again.
\<close>

definition wrap32 :: "int \<Rightarrow> int" where
  "wrap32 i = (i + 2 ^ 31) mod 2 ^ 32 - 2 ^ 31"

fun ToInt32 :: "number \<Rightarrow> int" where
  "ToInt32 (Num i) = wrap32 i"
| "ToInt32 _ = 0"

definition shift_left :: "number \<Rightarrow> int \<Rightarrow> number" where
  "shift_left a k = Num (wrap32 (ToInt32 a * 2 ^ nat (k mod 32)))"

subsection \<open>The execution state and the semantic actions\<close>

text \<open>
  \<open>REG\<close>, \<open>MEM\<close> and \<open>OUT\<close> are JavaScript arrays: objects whose properties are keyed
  by the number written between the brackets. An array is modelled by its property
  map; a key with no property reads as \<open>undefined\<close> (\<open>None\<close>), and a write to a key past
  the end creates the property, as JavaScript does. \<open>COUNTER\<close> is the module's only
  \<open>let\<close>; \<open>TIME\<close> is a constant.
\<close>

type_synonym jsarray = "number \<rightharpoonup> number"

record state =
  REG :: jsarray
  MEM :: jsarray
  OUT :: jsarray
  COUNTER :: number

text \<open>\<open>Array(n).fill(0)\<close>: the indices below \<open>n\<close> hold 0.\<close>

fun Array_fill0 :: "nat \<Rightarrow> jsarray" where
  "Array_fill0 n (Num i) = (if 0 \<le> i \<and> i < int n then Some (Num 0) else None)"
| "Array_fill0 n _ = None"

definition TIME :: number where
  "TIME = Num 0"

definition initial_state :: state where
  "initial_state =
     \<lparr>REG = Array_fill0 (2 ^ 4), MEM = Array_fill0 (2 ^ 8), OUT = Map.empty, COUNTER = Num 0\<rparr>"

text \<open>\<open>MEM[r1] = imm\<close>\<close>

definition mov4 :: "number \<Rightarrow> number \<Rightarrow> state \<Rightarrow> state" where
  "mov4 r1 imm s = s\<lparr>MEM := (MEM s)(r1 \<mapsto> imm)\<rparr>"

text \<open>\<open>if (REG[r1] !== 0) { COUNTER = imm; }\<close>: \<open>undefined\<close> is not 0 either.\<close>

definition jz :: "number \<Rightarrow> number \<Rightarrow> state \<Rightarrow> state" where
  "jz r1 imm s = (if REG s r1 \<noteq> Some (Num 0) then s\<lparr>COUNTER := imm\<rparr> else s)"

text \<open>\<open>OUT[TIME] = imm\<close>\<close>

definition readm :: "number \<Rightarrow> state \<Rightarrow> state" where
  "readm imm s = s\<lparr>OUT := (OUT s)(TIME \<mapsto> imm)\<rparr>"

text \<open>A run of \<open>readm\<close> calls, one per immediate, in order.\<close>

definition readm_all :: "number list \<Rightarrow> state \<Rightarrow> state" where
  "readm_all imms s = foldl (\<lambda>st imm. readm imm st) s imms"

subsection \<open>The tables\<close>

text \<open>
  \<open>ParsingData\<close> has two optional fields. The \<open>evaluate\<close> member of an instruction is a
  reference to one of the action functions of the module; the reference is modelled by
  the action's name.
\<close>

record parsing_data =
  registers :: "nat option"
  immediate :: "bool option"

datatype action = Mov1 | Mov2 | Mov3 | Mov4 | Add | Subt | Jz | Halt | Mul | Load | Readm

record instruction =
  args :: "number list"
  evaluate :: action
  hex :: jsstring

definition PATTERNS :: "(jsstring \<times> parsing_data \<times> action) list" where
  "PATTERNS =
     [(js ''mov1'', \<lparr>registers = Some 1, immediate = Some True\<rparr>, Mov1),
      (js ''mov2'', \<lparr>registers = Some 1, immediate = Some True\<rparr>, Mov2),
      (js ''mov3'', \<lparr>registers = Some 2, immediate = None\<rparr>, Mov3),
      (js ''mov4'', \<lparr>registers = Some 1, immediate = Some True\<rparr>, Mov4),
      (js ''add'', \<lparr>registers = Some 3, immediate = None\<rparr>, Add),
      (js ''subt'', \<lparr>registers = Some 3, immediate = None\<rparr>, Subt),
      (js ''jz'', \<lparr>registers = Some 1, immediate = Some True\<rparr>, Jz),
      (js ''halt'', \<lparr>registers = None, immediate = None\<rparr>, Halt),
      (js ''mul'', \<lparr>registers = Some 3, immediate = None\<rparr>, Mul),
      (js ''load'', \<lparr>registers = Some 2, immediate = None\<rparr>, Load),
      (js ''readm'', \<lparr>registers = None, immediate = Some True\<rparr>, Readm)]"

definition INSTRUCTION_NUMBERS :: "(jsstring \<times> number) list" where
  "INSTRUCTION_NUMBERS =
     [(js ''mov1'', Num 0),
      (js ''mov2'', Num 1),
      (js ''mov3'', Num 2),
      (js ''mov4'', Num 3),
      (js ''add'', Num 4),
      (js ''subt'', Num 5),
      (js ''jz'', Num 6),
      (js ''halt'', Num 15),
      (js ''mul'', Num 8),
      (js ''load'', Num 10),
      (js ''readm'', Num 7)]"

text \<open>
  Both tables are object literals, so they inherit from \<open>Object.prototype\<close>: the \<open>in\<close>
  operator and a property read find the prototype's members as well as the table's own
  keys. A read of an inherited member yields a function object, a read of a missing
  key \<open>undefined\<close>; both convert to \<open>NaN\<close> where a number is wanted.
\<close>

definition Object_prototype :: "jsstring list" where
  "Object_prototype =
     [js ''constructor'', js ''hasOwnProperty'', js ''isPrototypeOf'',
      js ''propertyIsEnumerable'', js ''toLocaleString'', js ''toString'', js ''valueOf'',
      js ''__proto__'', js ''__defineGetter__'', js ''__defineSetter__'',
      js ''__lookupGetter__'', js ''__lookupSetter__'']"

datatype 'a property = Own 'a | Inherited | Missing

definition get_property :: "(jsstring \<times> 'a) list \<Rightarrow> jsstring \<Rightarrow> 'a property" where
  "get_property table k =
     (case map_of table k of
        Some v \<Rightarrow> Own v
      | None \<Rightarrow> if k \<in> set Object_prototype then Inherited else Missing)"

fun ToNumber :: "number property \<Rightarrow> number" where
  "ToNumber (Own n) = n"
| "ToNumber _ = NaN"

subsection \<open>Strings: split, trim and the regular expressions\<close>

text \<open>\<open>s.split(c)\<close> for a one-character separator: never empty.\<close>

fun split :: "code_unit \<Rightarrow> jsstring \<Rightarrow> jsstring list" where
  "split c [] = [[]]"
| "split c (u # us) =
     (if u = c then [] # split c us
      else (case split c us of l # ls \<Rightarrow> (u # l) # ls | [] \<Rightarrow> [[u]]))"

text \<open>
  \<open>trim\<close> removes white space and line terminators from both ends: TAB, VT, FF, SP,
  NBSP, ZWNBSP, the Unicode space separators, and LF, CR, LS, PS.
\<close>

definition is_line_terminator :: "code_unit \<Rightarrow> bool" where
  "is_line_terminator u \<longleftrightarrow> u = 10 \<or> u = 13 \<or> u = 8232 \<or> u = 8233"

definition is_white_space :: "code_unit \<Rightarrow> bool" where
  "is_white_space u \<longleftrightarrow>
     u = 9 \<or> u = 11 \<or> u = 12 \<or> u = 32 \<or> u = 160 \<or> u = 5760 \<or> (8192 \<le> u \<and> u \<le> 8202) \<or>
     u = 8239 \<or> u = 8287 \<or> u = 12288 \<or> u = 65279"

definition is_trimmed :: "code_unit \<Rightarrow> bool" where
  "is_trimmed u \<longleftrightarrow> is_white_space u \<or> is_line_terminator u"

definition trim :: "jsstring \<Rightarrow> jsstring" where
  "trim s = rev (dropWhile is_trimmed (rev (dropWhile is_trimmed s)))"

definition is_digit :: "code_unit \<Rightarrow> bool" where
  "is_digit u \<longleftrightarrow> 48 \<le> u \<and> u \<le> 57"

definition is_alnum :: "code_unit \<Rightarrow> bool" where
  "is_alnum u \<longleftrightarrow> is_digit u \<or> (97 \<le> u \<and> u \<le> 122) \<or> (65 \<le> u \<and> u \<le> 90)"

text \<open>
  \<open>COMMAND = /^([0-9a-zA-Z]+)(.*?)$/\<close>. The first group is greedy and the second must
  reach the end of the input, where \<open>.\<close> matches anything but a line terminator: the
  match exists exactly when the string starts with an alphanumeric and has no line
  terminator after the alphanumeric run, and then the groups are that run and the
  rest. (Giving back part of the run never helps: the rest only grows.)
\<close>

definition COMMAND :: "jsstring \<Rightarrow> (jsstring \<times> jsstring) option" where
  "COMMAND s =
     (let name = takeWhile is_alnum s; rest = dropWhile is_alnum s
      in if name = [] \<or> list_ex is_line_terminator rest then None else Some (name, rest))"

text \<open>
  \<open>makeRegex\<close> joins one \<open>R([0-9]+)\<close> per register and, if there is an immediate, one
  \<open>([0-9]+)\<close>, with \<open> +\<close> between them, anchored at both ends. The expression is
  modelled by its list of groups. Digits, the space and \<open>R\<close> are disjoint, so every
  repetition takes its maximal run and the match is deterministic.
\<close>

datatype regex_group = Register_group | Immediate_group

definition makeRegex :: "parsing_data \<Rightarrow> regex_group list" where
  "makeRegex data =
     replicate (case registers data of None \<Rightarrow> 0 | Some n \<Rightarrow> n) Register_group @
     (if immediate data = Some True then [Immediate_group] else [])"

fun match_group :: "regex_group \<Rightarrow> jsstring \<Rightarrow> (jsstring \<times> jsstring) option" where
  "match_group Immediate_group s =
     (if takeWhile is_digit s = [] then None
      else Some (takeWhile is_digit s, dropWhile is_digit s))"
| "match_group Register_group [] = None"
| "match_group Register_group (u # s) =
     (if u = 82 then match_group Immediate_group s else None)"

fun match_regex :: "regex_group list \<Rightarrow> jsstring \<Rightarrow> jsstring list option" where
  "match_regex [] s = (if s = [] then Some [] else None)"
| "match_regex [g] s =
     (case match_group g s of
        None \<Rightarrow> None
      | Some (d, rest) \<Rightarrow> if rest = [] then Some [d] else None)"
| "match_regex (g # gs) s =
     (case match_group g s of
        None \<Rightarrow> None
      | Some (d, rest) \<Rightarrow>
          if takeWhile (\<lambda>u. u = 32) rest = [] then None
          else
            (case match_regex gs (dropWhile (\<lambda>u. u = 32) rest) of
               None \<Rightarrow> None
             | Some ds \<Rightarrow> Some (d # ds)))"

subsection \<open>Numbers to and from text\<close>

text \<open>
  \<open>parseInt(value, 10)\<close> on a string of decimal digits, which is all that a group of
  the regular expression can hold: its value, rounded to a double. (ECMAScript lets an
  implementation drop digits after the 20th; the engines in use round the exact value,
  which is what is modelled.)
\<close>

definition parseInt :: "jsstring \<Rightarrow> number" where
  "parseInt digits = to_double (int (foldl (\<lambda>n u. 10 * n + (u - 48)) 0 digits))"

text \<open>\<open>n.toString(16)\<close>: lower-case digits, a minus sign for a negative number.\<close>

definition hex_digit :: "nat \<Rightarrow> code_unit" where
  "hex_digit d = (if d < 10 then 48 + d else 87 + d)"

fun hex_digits :: "nat \<Rightarrow> jsstring" where
  "hex_digits n = (if n < 16 then [hex_digit n] else hex_digits (n div 16) @ [hex_digit (n mod 16)])"

declare hex_digits.simps [simp del]

fun toString16 :: "number \<Rightarrow> jsstring" where
  "toString16 (Num i) = (if i < 0 then 45 # hex_digits (nat (- i)) else hex_digits (nat i))"
| "toString16 NaN = js ''NaN''"
| "toString16 PosInf = js ''Infinity''"
| "toString16 NegInf = js ''-Infinity''"

text \<open>\<open>toUpperCase\<close>, on the ASCII strings that \<open>toHex\<close> returns.\<close>

definition toUpperCase :: "jsstring \<Rightarrow> jsstring" where
  "toUpperCase s = map (\<lambda>u. if 97 \<le> u \<and> u \<le> 122 then u - 32 else u) s"

datatype error =
    Unable_to_parse_instruction_name jsstring
  | Unknown_instruction jsstring
  | Invalid_instruction_number number
  | Unable_to_parse_arguments jsstring jsstring
  | Unable_to_convert_to_HEX number
  | TypeError

text \<open>
  \<open>toHex\<close>: the \<open>while\<close> loop prepends \<open>'0'\<close> until the string has \<open>length\<close> characters.
\<close>

definition toHex :: "number \<Rightarrow> nat \<Rightarrow> error + jsstring" where
  "toHex decimal len =
     (if num_ge decimal (16 ^ len) then Inl (Unable_to_convert_to_HEX decimal)
      else Inr (replicate (len - length (toString16 decimal)) 48 @ toString16 decimal))"

subsection \<open>The parser\<close>

text \<open>
  \<open>numbers[i]\<close> where a number is wanted (an operand of \<open>+\<close> or \<open><<\<close>): out of range the
  read is \<open>undefined\<close>, which converts to \<open>NaN\<close>.
\<close>

definition number_at :: "number list \<Rightarrow> nat \<Rightarrow> number" where
  "number_at numbers i = (if i < length numbers then numbers ! i else NaN)"

text \<open>
  The word encoder, lines 192 to 203 of \<open>parseLine\<close>: the loop over \<open>range(registers)\<close>
  adds \<open>numbers[i] << (4 * (2 - i))\<close> to \<open>decimal\<close>, and the immediate, the last number,
  is added as it is.
\<close>

definition add_operands :: "number \<Rightarrow> nat \<Rightarrow> bool \<Rightarrow> number list \<Rightarrow> number" where
  "add_operands decimal0 registers' immediate' numbers =
     (let decimal = foldl (\<lambda>d i. num_add d (shift_left (number_at numbers i) (4 * (2 - int i))))
                      decimal0 [0..<registers']
      in if immediate' then num_add decimal (number_at numbers (length numbers - 1)) else decimal)"

text \<open>
  \<open>parseLine\<close>, with the table of instruction numbers as a parameter (the module's
  own table is put in below). A thrown \<open>Error\<close> is \<open>Inl\<close>, \<open>null\<close> is \<open>Inr None\<close>. For a
  mnemonic that \<open>PATTERNS\<close> only inherits, \<open>PATTERNS[key]\<close> is a function, and the array
  destructuring of a function (as of \<open>undefined\<close>) throws a \<open>TypeError\<close>.
\<close>

definition parseLine_with :: "(jsstring \<times> number) list \<Rightarrow> jsstring \<Rightarrow> error + instruction option" where
  "parseLine_with instruction_numbers text0 =
     (let line = trim (hd (split 35 text0)) in
      if line = [] then Inr None
      else
        (case COMMAND line of
           None \<Rightarrow> Inl (Unable_to_parse_instruction_name line)
         | Some (instruction, rest) \<Rightarrow>
             (let line = trim rest in
              if get_property PATTERNS instruction = Missing then Inl (Unknown_instruction instruction)
              else
                (let instructionNumber = ToNumber (get_property instruction_numbers instruction) in
                 if num_gt instructionNumber 15 then Inl (Invalid_instruction_number instructionNumber)
                 else
                   (let decimal = shift_left instructionNumber 12 in
                    (case get_property PATTERNS instruction of
                       Missing \<Rightarrow> Inl TypeError
                     | Inherited \<Rightarrow> Inl TypeError
                     | Own (parsingData, evaluate') \<Rightarrow>
                         (let registers' = (case registers parsingData of None \<Rightarrow> 0 | Some n \<Rightarrow> n);
                              immediate' = (case immediate parsingData of None \<Rightarrow> False | Some b \<Rightarrow> b)
                          in
                            (case match_regex (makeRegex parsingData) line of
                               None \<Rightarrow> Inl (Unable_to_parse_arguments instruction line)
                             | Some groups \<Rightarrow>
                                 (let numbers = map parseInt groups;
                                      decimal = add_operands decimal registers' immediate' numbers
                                  in
                                    (case toHex decimal 4 of
                                       Inl e \<Rightarrow> Inl e
                                     | Inr h \<Rightarrow>
                                         Inr (Some \<lparr>args = numbers, evaluate = evaluate', hex = toUpperCase h\<rparr>)))))))))))"

definition parseLine :: "jsstring \<Rightarrow> error + instruction option" where
  "parseLine = parseLine_with INSTRUCTION_NUMBERS"

text \<open>
  \<open>parse\<close>: \<open>map\<close> calls \<open>parseLine\<close> on the lines in order, so the first line that throws
  ends the call; \<open>filter\<close> drops the \<open>null\<close>s.
\<close>

fun map_parseLine :: "jsstring list \<Rightarrow> error + instruction option list" where
  "map_parseLine [] = Inr []"
| "map_parseLine (l # ls) =
     (case parseLine l of
        Inl e \<Rightarrow> Inl e
      | Inr r \<Rightarrow> (case map_parseLine ls of Inl e \<Rightarrow> Inl e | Inr rs \<Rightarrow> Inr (r # rs)))"

definition parse :: "jsstring \<Rightarrow> error + instruction list" where
  "parse text0 =
     (case map_parseLine (split 10 text0) of
        Inl e \<Rightarrow> Inl e
      | Inr rs \<Rightarrow> Inr (map the (filter (\<lambda>r. r \<noteq> None) rs)))"

subsection \<open>Notions the statements below use\<close>

text \<open>
  The two tokens of a line as \<open>parseLine\<close> binds them: the mnemonic (\<open>instruction\<close>) and
  the operand text (\<open>line\<close> after the second \<open>trim\<close>).
\<close>

definition tokens :: "jsstring \<Rightarrow> (jsstring \<times> jsstring) option" where
  "tokens text0 =
     (case COMMAND (trim (hd (split 35 text0))) of
        None \<Rightarrow> None
      | Some (name, rest) \<Rightarrow> Some (name, trim rest))"

text \<open>A line that is only white space, or white space and then a comment.\<close>

definition blank_line :: "jsstring \<Rightarrow> bool" where
  "blank_line l \<longleftrightarrow> list_all is_trimmed (takeWhile (\<lambda>u. u \<noteq> 35) l)"

text \<open>Reading an upper-case hexadecimal digit back.\<close>

definition hex_digit_value :: "code_unit \<Rightarrow> nat option" where
  "hex_digit_value u =
     (if 48 \<le> u \<and> u \<le> 57 then Some (u - 48)
      else if 65 \<le> u \<and> u \<le> 70 then Some (u - 55)
      else None)"

text \<open>
  Operands that fit their fields: every register below 16, and the immediate below
  \<open>16 ^ (3 - registers)\<close>, the room the registers leave in the low 12 bits.
\<close>

fun below :: "int \<Rightarrow> number \<Rightarrow> bool" where
  "below b (Num i) = (0 \<le> i \<and> i < b)"
| "below b _ = False"

definition operands_fit :: "parsing_data \<Rightarrow> number list \<Rightarrow> bool" where
  "operands_fit data numbers =
     (let r = (case registers data of None \<Rightarrow> 0 | Some n \<Rightarrow> n)
      in list_all (below 16) (take r numbers) \<and>
         (if immediate data = Some True then below (16 ^ (3 - r)) (last numbers) else True))"

text \<open>
  The word of a line, as lines 177 and 192 to 203 of \<open>parseLine\<close> compute it from the
  instruction number, the shape and the numbers: \<open>(c << 12)\<close>, plus the shifted
  registers, plus the immediate.
\<close>

definition encoded_word :: "number \<Rightarrow> parsing_data \<Rightarrow> number list \<Rightarrow> number" where
  "encoded_word instructionNumber data numbers =
     add_operands (shift_left instructionNumber 12)
       (case registers data of None \<Rightarrow> 0 | Some n \<Rightarrow> n)
       (case immediate data of None \<Rightarrow> False | Some b \<Rightarrow> b) numbers"

section \<open>Auxiliary facts\<close>

subsection \<open>Evaluating the parser on a literal\<close>

lemma replicate_numeral: "replicate (numeral k) x = x # replicate (pred_numeral k) x"
  by (simp add: numeral_eq_Suc)

lemma upt_0_numeral: "[0..<numeral k] = [0..<pred_numeral k] @ [pred_numeral k]"
  by (simp add: numeral_eq_Suc)

lemmas char_defs = is_digit_def is_alnum_def is_line_terminator_def is_white_space_def is_trimmed_def

lemmas eval_defs = js_def parseLine_def parseLine_with_def trim_def COMMAND_def char_defs
  get_property_def PATTERNS_def INSTRUCTION_NUMBERS_def Object_prototype_def makeRegex_def
  parseInt_def to_double_def round_nat_def toHex_def hex_digits.simps hex_digit_def
  add_operands_def shift_left_def wrap32_def number_at_def toUpperCase_def
  replicate_numeral upt_0_numeral

subsection \<open>Splitting and trimming\<close>

lemma split_not_Nil: "split c s \<noteq> []"
  by (induction s) (auto split: list.splits)

lemma hd_split: "hd (split c s) = takeWhile (\<lambda>u. u \<noteq> c) s"
proof (induction s)
  case Nil
  show ?case by simp
next
  case (Cons u us)
  then show ?case
    using split_not_Nil [of c us] by (cases "split c us") auto
qed

lemma trim_Nil_iff: "trim s = [] \<longleftrightarrow> list_all is_trimmed s"
proof
  assume "trim s = []"
  then have "dropWhile is_trimmed (rev (dropWhile is_trimmed s)) = []"
    by (simp add: trim_def)
  then have all: "\<forall>u \<in> set (dropWhile is_trimmed s). is_trimmed u"
    by simp
  have "dropWhile is_trimmed s = []"
  proof (cases "dropWhile is_trimmed s")
    case Nil
    then show ?thesis .
  next
    case (Cons u us)
    then have "\<not> is_trimmed u"
      using hd_dropWhile [of is_trimmed s] by simp
    with all Cons show ?thesis by simp
  qed
  then show "list_all is_trimmed s"
    by (simp add: list_all_iff)
next
  assume "list_all is_trimmed s"
  then have "dropWhile is_trimmed s = []"
    by (simp add: list_all_iff)
  then show "trim s = []"
    by (simp only: trim_def rev.simps dropWhile.simps)
qed

lemma COMMAND_Nil: "COMMAND [] = None"
  by (simp add: COMMAND_def)

lemma tokens_line_not_blank:
  "tokens text0 = Some (name, operands) \<Longrightarrow> trim (hd (split 35 text0)) \<noteq> []"
  by (auto simp: tokens_def COMMAND_Nil split: option.splits)

subsection \<open>The tables\<close>

lemma PATTERNS_shapes:
  assumes "map_of PATTERNS name = Some (data, act)"
  shows "(registers data, immediate data) \<in>
     {(Some 1, Some True), (Some 2, None), (Some 3, None), (None, None), (None, Some True)}"
  using assms by (auto simp: PATTERNS_def split: if_splits)

lemma INSTRUCTION_NUMBERS_range:
  assumes "map_of INSTRUCTION_NUMBERS name = Some n"
  shows "below 16 n"
  using assms by (auto simp: INSTRUCTION_NUMBERS_def split: if_splits)

lemma same_keys: "map_of PATTERNS name = None \<Longrightarrow> map_of INSTRUCTION_NUMBERS name = None"
  by (auto simp: PATTERNS_def INSTRUCTION_NUMBERS_def split: if_splits)

lemma below_NumE: "below b n \<Longrightarrow> (\<And>i. n = Num i \<Longrightarrow> 0 \<le> i \<Longrightarrow> i < b \<Longrightarrow> P) \<Longrightarrow> P"
  by (cases n) auto

lemma instruction_number_in_range:
  "\<not> num_gt (ToNumber (get_property INSTRUCTION_NUMBERS name)) 15"
proof (cases "map_of INSTRUCTION_NUMBERS name")
  case None
  then show ?thesis by (simp add: get_property_def)
next
  case (Some n)
  with INSTRUCTION_NUMBERS_range [OF Some] show ?thesis
    by (auto simp: get_property_def elim: below_NumE)
qed

subsection \<open>The branches of \<open>parseLine\<close>\<close>

text \<open>
  A line is blank, or has no mnemonic, or has a mnemonic that \<open>PATTERNS\<close> knows, or one
  that it does not know. The next facts give the result of \<open>parseLine\<close> in the first and
  in the last two cases.
\<close>

lemma parseLine_with_None_iff: "parseLine_with nums l = Inr None \<longleftrightarrow> blank_line l"
proof -
  have "parseLine_with nums l = Inr None \<longleftrightarrow> trim (hd (split 35 l)) = []"
    by (simp add: parseLine_with_def Let_def split: option.splits property.splits sum.splits prod.splits)
  then show ?thesis
    by (simp add: trim_Nil_iff hd_split blank_line_def)
qed

lemma parseLine_None_iff: "parseLine l = Inr None \<longleftrightarrow> blank_line l"
  by (simp add: parseLine_def parseLine_with_None_iff)

lemma parseLine_with_known:
  assumes "tokens text0 = Some (name, operands)"
    and "map_of PATTERNS name = Some (data, act)"
  shows "parseLine_with nums text0 =
     (if num_gt (ToNumber (get_property nums name)) 15
      then Inl (Invalid_instruction_number (ToNumber (get_property nums name)))
      else
        (case match_regex (makeRegex data) operands of
           None \<Rightarrow> Inl (Unable_to_parse_arguments name operands)
         | Some groups \<Rightarrow>
             (case toHex (add_operands (shift_left (ToNumber (get_property nums name)) 12)
                       (case registers data of None \<Rightarrow> 0 | Some n \<Rightarrow> n)
                       (case immediate data of None \<Rightarrow> False | Some b \<Rightarrow> b)
                       (map parseInt groups)) 4 of
                Inl e \<Rightarrow> Inl e
              | Inr h \<Rightarrow>
                  Inr (Some \<lparr>args = map parseInt groups, evaluate = act, hex = toUpperCase h\<rparr>))))"
proof -
  from assms(1) obtain rest where
    c: "COMMAND (trim (hd (split 35 text0))) = Some (name, rest)" and o: "operands = trim rest"
    by (auto simp: tokens_def split: option.splits)
  have ne: "trim (hd (split 35 text0)) \<noteq> []"
    using assms(1) by (rule tokens_line_not_blank)
  have own: "get_property PATTERNS name = Own (data, act)"
    using assms(2) by (simp add: get_property_def)
  show ?thesis
    unfolding parseLine_with_def Let_def o
    by (simp add: ne c own)
qed

lemma parseLine_with_unknown:
  assumes "tokens text0 = Some (name, operands)"
    and "map_of PATTERNS name = None"
  shows "parseLine_with nums text0 =
     (if name \<notin> set Object_prototype then Inl (Unknown_instruction name)
      else if num_gt (ToNumber (get_property nums name)) 15
      then Inl (Invalid_instruction_number (ToNumber (get_property nums name)))
      else Inl TypeError)"
proof -
  from assms(1) obtain rest where
    c: "COMMAND (trim (hd (split 35 text0))) = Some (name, rest)"
    by (auto simp: tokens_def split: option.splits)
  have ne: "trim (hd (split 35 text0)) \<noteq> []"
    using assms(1) by (rule tokens_line_not_blank)
  show ?thesis
    unfolding parseLine_with_def
    by (simp add: ne c assms(2) get_property_def Let_def)
qed


lemma unknown_mnemonic:
  assumes "tokens line = Some (name, operands)"
    and "map_of PATTERNS name = None"
  shows "parseLine line = (if name \<in> set Object_prototype then Inl TypeError else Inl (Unknown_instruction name))"
  using same_keys [OF assms(2)]
  by (simp add: parseLine_def parseLine_with_unknown [OF assms] get_property_def)

lemma operand_mismatch:
  assumes "tokens line = Some (name, operands)"
    and "map_of PATTERNS name = Some (data, act)"
    and "match_regex (makeRegex data) operands = None"
  shows "parseLine line = Inl (Unable_to_parse_arguments name operands)"
  unfolding parseLine_def parseLine_with_known [OF assms(1,2)]
  using instruction_number_in_range assms(3) by simp


lemma parsed_groups:
  assumes "parseLine line = Inr (Some ins)"
    and "tokens line = Some (name, operands)"
    and "map_of PATTERNS name = Some (data, act)"
  shows "\<exists>groups. match_regex (makeRegex data) operands = Some groups \<and> args ins = map parseInt groups"
proof -
  have "parseLine line = Inr (Some ins) \<longrightarrow> ?thesis"
    unfolding parseLine_def parseLine_with_known [OF assms(2,3)]
    by (auto split: option.splits sum.splits if_splits)
  with assms(1) show ?thesis by simp
qed



subsection \<open>Numbers in range\<close>

lemma wrap32_id: "- (2 ^ 31) \<le> i \<Longrightarrow> i < 2 ^ 31 \<Longrightarrow> wrap32 i = i"
  by (simp add: wrap32_def)

lemma round_nat_exact: "n < 2 ^ 53 \<Longrightarrow> round_nat n = n"
  by (simp add: round_nat_def)

lemma to_double_exact: "\<bar>i\<bar> < 2 ^ 53 \<Longrightarrow> to_double i = Num i"
proof -
  assume a: "\<bar>i\<bar> < 2 ^ 53"
  then have "nat \<bar>i\<bar> < 2 ^ 53"
    by (simp add: nat_less_iff)
  then have r: "round_nat (nat \<bar>i\<bar>) = nat \<bar>i\<bar>"
    by (rule round_nat_exact)
  have "(2::nat) ^ 53 < 2 ^ 1024"
    by (rule power_strict_increasing) simp_all
  with \<open>nat \<bar>i\<bar> < 2 ^ 53\<close> have "\<not> 2 ^ 1024 \<le> nat \<bar>i\<bar>"
    by linarith
  with r show ?thesis
    by (simp add: to_double_def Let_def)
qed

lemma num_add_exact: "\<bar>a + b\<bar> < 2 ^ 53 \<Longrightarrow> num_add (Num a) (Num b) = Num (a + b)"
  by (simp add: to_double_exact)

lemma num_add_small:
  "0 \<le> a \<Longrightarrow> a < 65536 \<Longrightarrow> 0 \<le> b \<Longrightarrow> b < 65536 \<Longrightarrow> num_add (Num a) (Num b) = Num (a + b)"
  by (rule num_add_exact) simp

lemma shift_left_12: "0 \<le> v \<Longrightarrow> v < 16 \<Longrightarrow> shift_left (Num v) 12 = Num (v * 4096)"
  by (simp add: shift_left_def wrap32_id)

lemma shift_left_8: "0 \<le> v \<Longrightarrow> v < 16 \<Longrightarrow> shift_left (Num v) 8 = Num (v * 256)"
  by (simp add: shift_left_def wrap32_id)

lemma shift_left_4: "0 \<le> v \<Longrightarrow> v < 16 \<Longrightarrow> shift_left (Num v) 4 = Num (v * 16)"
  by (simp add: shift_left_def wrap32_id)

lemma shift_left_0: "0 \<le> v \<Longrightarrow> v < 16 \<Longrightarrow> shift_left (Num v) 0 = Num v"
  by (simp add: shift_left_def wrap32_id)

subsection \<open>Four hexadecimal digits\<close>

lemma hex_digits_1: "n < 16 \<Longrightarrow> hex_digits n = [hex_digit n]"
  by (simp add: hex_digits.simps)

lemma hex_digits_step: "16 \<le> n \<Longrightarrow> hex_digits n = hex_digits (n div 16) @ [hex_digit (n mod 16)]"
  by (subst hex_digits.simps) simp

lemma hex_digits_2:
  "16 \<le> n \<Longrightarrow> n < 256 \<Longrightarrow> hex_digits n = [hex_digit (n div 16), hex_digit (n mod 16)]"
  by (simp add: hex_digits_step hex_digits_1 div_less_iff_less_mult)

lemma hex_digits_3:
  "256 \<le> n \<Longrightarrow> n < 4096 \<Longrightarrow>
   hex_digits n = [hex_digit (n div 256), hex_digit (n div 16 mod 16), hex_digit (n mod 16)]"
proof -
  assume a: "256 \<le> n" "n < 4096"
  then have "16 \<le> n div 16" "n div 16 < 256" by auto
  then have "hex_digits (n div 16) = [hex_digit (n div 16 div 16), hex_digit (n div 16 mod 16)]"
    by (rule hex_digits_2)
  moreover have "n div 16 div 16 = n div 256"
    by (simp add: div_mult2_eq [symmetric])
  ultimately show ?thesis
    using a by (simp add: hex_digits_step)
qed

lemma hex_digits_4:
  "4096 \<le> n \<Longrightarrow> n < 65536 \<Longrightarrow>
   hex_digits n =
     [hex_digit (n div 4096), hex_digit (n div 256 mod 16), hex_digit (n div 16 mod 16), hex_digit (n mod 16)]"
proof -
  assume a: "4096 \<le> n" "n < 65536"
  then have "256 \<le> n div 16" "n div 16 < 4096" by auto
  then have "hex_digits (n div 16) =
      [hex_digit (n div 16 div 256), hex_digit (n div 16 div 16 mod 16), hex_digit (n div 16 mod 16)]"
    by (rule hex_digits_3)
  moreover have "n div 16 div 256 = n div 4096" "n div 16 div 16 = n div 256"
    by (simp_all add: div_mult2_eq [symmetric])
  ultimately show ?thesis
    using a by (simp add: hex_digits_step)
qed

lemma toHex_word:
  assumes "n < 65536"
  shows "toHex (Num (int n)) 4 =
     Inr [hex_digit (n div 4096), hex_digit (n div 256 mod 16), hex_digit (n div 16 mod 16), hex_digit (n mod 16)]"
proof -
  have zero: "hex_digit 0 = 48"
    by (simp add: hex_digit_def)
  consider "n < 16" | "16 \<le> n" "n < 256" | "256 \<le> n" "n < 4096" | "4096 \<le> n"
    by linarith
  then have "replicate (4 - length (hex_digits n)) 48 @ hex_digits n =
     [hex_digit (n div 4096), hex_digit (n div 256 mod 16), hex_digit (n div 16 mod 16), hex_digit (n mod 16)]"
  proof cases
    case 1
    then show ?thesis
      by (simp add: hex_digits_1 zero replicate_numeral)
  next
    case 2
    then show ?thesis
      by (simp add: hex_digits_2 zero replicate_numeral)
  next
    case 3
    then show ?thesis
      by (simp add: hex_digits_3 zero)
  next
    case 4
    with assms show ?thesis
      by (simp add: hex_digits_4)
  qed
  with assms show ?thesis
    by (simp add: toHex_def)
qed

lemma hex_digit_value_toUpperCase:
  "list_all (\<lambda>d. d < 16) ds \<Longrightarrow>
   map hex_digit_value (toUpperCase (map hex_digit ds)) = map Some ds"
  by (induction ds) (auto simp: toUpperCase_def hex_digit_def hex_digit_value_def)

subsection \<open>Operands that fit their fields\<close>

lemma match_regex_length: "match_regex gs s = Some ds \<Longrightarrow> length ds = length gs"
  by (induction gs s arbitrary: ds rule: match_regex.induct)
     (auto split: option.splits if_splits)

lemma length_1E: "length xs = Suc 0 \<Longrightarrow> (\<And>a. xs = [a] \<Longrightarrow> P) \<Longrightarrow> P"
  by (cases xs) auto

lemma length_2E: "length xs = Suc (Suc 0) \<Longrightarrow> (\<And>a b. xs = [a, b] \<Longrightarrow> P) \<Longrightarrow> P"
  by (cases xs; cases "tl xs") auto

lemma length_3E: "length xs = Suc (Suc (Suc 0)) \<Longrightarrow> (\<And>a b c. xs = [a, b, c] \<Longrightarrow> P) \<Longrightarrow> P"
  by (cases xs; cases "tl xs"; cases "tl (tl xs)") auto

lemma add_operands_fit:
  assumes shape: "(registers data, immediate data) \<in>
       {(Some 1, Some True), (Some 2, None), (Some 3, None), (None, None), (None, Some True)}"
    and len: "length numbers = length (makeRegex data)"
    and fit: "operands_fit data numbers"
    and k: "k < 16"
  shows "\<exists>low. low < 4096 \<and>
     add_operands (shift_left (Num (int k)) 12)
       (case registers data of None \<Rightarrow> 0 | Some n \<Rightarrow> n)
       (case immediate data of None \<Rightarrow> False | Some b \<Rightarrow> b) numbers = Num (int (k * 4096 + low))"
proof -
  have op: "shift_left (Num (int k)) 12 = Num (int k * 4096)"
    using k by (simp add: shift_left_12)
  consider
      (ri) "registers data = Some 1" "immediate data = Some True"
    | (rr) "registers data = Some 2" "immediate data = None"
    | (rrr) "registers data = Some 3" "immediate data = None"
    | (none) "registers data = None" "immediate data = None"
    | (i) "registers data = None" "immediate data = Some True"
    using shape by auto
  then show ?thesis
  proof cases
    case ri
    with len obtain a b where n: "numbers = [a, b]"
      by (auto simp: makeRegex_def elim: length_2E)
    with fit ri obtain v m where a: "a = Num v" "0 \<le> v" "v < 16" and b: "b = Num m" "0 \<le> m" "m < 256"
      by (auto simp: operands_fit_def elim!: below_NumE)
    have "add_operands (shift_left (Num (int k)) 12) 1 True [a, b] = Num (int k * 4096 + (v * 256 + m))"
      using a b k by (simp add: op add_operands_def number_at_def shift_left_8 num_add_small del: num_add.simps)
    moreover have "v * 256 + m < 4096" "0 \<le> v * 256 + m"
      using a b by auto
    ultimately have "nat (v * 256 + m) < 4096 \<and>
       add_operands (shift_left (Num (int k)) 12) 1 True [a, b] = Num (int (k * 4096 + nat (v * 256 + m)))"
      by simp
    with ri n show ?thesis by auto
  next
    case rr
    with len obtain a b where n: "numbers = [a, b]"
      by (auto simp: makeRegex_def numeral_2_eq_2 elim: length_2E)
    with fit rr obtain v w where a: "a = Num v" "0 \<le> v" "v < 16" and b: "b = Num w" "0 \<le> w" "w < 16"
      by (auto simp: operands_fit_def elim!: below_NumE)
    have "add_operands (shift_left (Num (int k)) 12) 2 False [a, b] = Num (int k * 4096 + (v * 256 + w * 16))"
      using a b k by (simp add: op add_operands_def number_at_def shift_left_8 shift_left_4 num_add_small upt_0_numeral del: num_add.simps)
    moreover have "v * 256 + w * 16 < 4096" "0 \<le> v * 256 + w * 16"
      using a b by auto
    ultimately have "nat (v * 256 + w * 16) < 4096 \<and>
       add_operands (shift_left (Num (int k)) 12) 2 False [a, b] = Num (int (k * 4096 + nat (v * 256 + w * 16)))"
      by simp
    with rr n show ?thesis by auto
  next
    case rrr
    with len obtain a b c where n: "numbers = [a, b, c]"
      by (auto simp: makeRegex_def numeral_3_eq_3 elim: length_3E)
    with fit rrr obtain v w x where a: "a = Num v" "0 \<le> v" "v < 16" and b: "b = Num w" "0 \<le> w" "w < 16"
      and c: "c = Num x" "0 \<le> x" "x < 16"
      by (auto simp: operands_fit_def elim!: below_NumE)
    have "add_operands (shift_left (Num (int k)) 12) 3 False [a, b, c] = Num (int k * 4096 + (v * 256 + w * 16 + x))"
      using a b c k
      by (simp add: op add_operands_def number_at_def shift_left_8 shift_left_4 shift_left_0 num_add_small upt_0_numeral del: num_add.simps)
    moreover have "v * 256 + w * 16 + x < 4096" "0 \<le> v * 256 + w * 16 + x"
      using a b c by auto
    ultimately have "nat (v * 256 + w * 16 + x) < 4096 \<and>
       add_operands (shift_left (Num (int k)) 12) 3 False [a, b, c] = Num (int (k * 4096 + nat (v * 256 + w * 16 + x)))"
      by simp
    with rrr n show ?thesis by auto
  next
    case none
    have "add_operands (shift_left (Num (int k)) 12) 0 False numbers = Num (int (k * 4096 + 0))"
      by (simp add: op add_operands_def)
    with none show ?thesis by auto
  next
    case i
    with len obtain b where n: "numbers = [b]"
      by (auto simp: makeRegex_def elim: length_1E)
    with fit i obtain m where b: "b = Num m" "0 \<le> m" "m < 4096"
      by (auto simp: operands_fit_def elim!: below_NumE)
    have "add_operands (shift_left (Num (int k)) 12) 0 True [b] = Num (int k * 4096 + m)"
      using b k by (simp add: op add_operands_def number_at_def num_add_small del: num_add.simps)
    then have "nat m < 4096 \<and>
       add_operands (shift_left (Num (int k)) 12) 0 True [b] = Num (int (k * 4096 + nat m))"
      using b by simp
    with i n show ?thesis by auto
  qed
qed

subsection \<open>The lines of a program\<close>

lemma map_parseLine_Inr: "map_parseLine ls = Inr rs \<longleftrightarrow> map parseLine ls = map Inr rs"
proof (induction ls arbitrary: rs)
  case Nil
  show ?case by auto
next
  case (Cons l ls)
  show ?case
  proof (cases "parseLine l")
    case (Inl e)
    then show ?thesis by (cases rs) auto
  next
    case r: (Inr r)
    show ?thesis
    proof (cases "map_parseLine ls")
      case (Inl e)
      with Cons.IH r show ?thesis by (cases rs) auto
    next
      case (Inr rs')
      with Cons.IH [of rs'] Cons.IH r show ?thesis by (cases rs) auto
    qed
  qed
qed

lemma kept_lines:
  "map parseLine ls = map Inr rs \<Longrightarrow>
   map parseLine (filter (\<lambda>l. \<not> blank_line l) ls) =
   map (\<lambda>i. Inr (Some i)) (map the (filter (\<lambda>r. r \<noteq> None) rs))"
proof (induction ls arbitrary: rs)
  case Nil
  then show ?case by simp
next
  case (Cons l ls)
  then obtain r rs' where rs: "rs = r # rs'" and l: "parseLine l = Inr r"
    and rest: "map parseLine ls = map Inr rs'"
    by (cases rs) auto
  from l have "blank_line l \<longleftrightarrow> r = None"
    using parseLine_None_iff [of l] by auto
  with Cons.IH [OF rest] rs l show ?case by auto
qed

lemma kept_lines_conv:
  "map parseLine (filter (\<lambda>l. \<not> blank_line l) ls) = map (\<lambda>i. Inr (Some i)) inss \<Longrightarrow>
   \<exists>rs. map parseLine ls = map Inr rs \<and> inss = map the (filter (\<lambda>r. r \<noteq> None) rs)"
proof (induction ls arbitrary: inss)
  case Nil
  then show ?case by simp
next
  case (Cons l ls)
  show ?case
  proof (cases "blank_line l")
    case True
    with Cons.prems have "map parseLine (filter (\<lambda>l. \<not> blank_line l) ls) = map (\<lambda>i. Inr (Some i)) inss"
      by simp
    from Cons.IH [OF this] obtain rs where
      "map parseLine ls = map Inr rs" "inss = map the (filter (\<lambda>r. r \<noteq> None) rs)"
      by blast
    with True parseLine_None_iff [of l] have
      "map parseLine (l # ls) = map Inr (None # rs) \<and> inss = map the (filter (\<lambda>r. r \<noteq> None) (None # rs))"
      by simp
    then show ?thesis by blast
  next
    case False
    with Cons.prems obtain i inss' where inss: "inss = i # inss'" and l: "parseLine l = Inr (Some i)"
      and rest: "map parseLine (filter (\<lambda>l. \<not> blank_line l) ls) = map (\<lambda>i. Inr (Some i)) inss'"
      by (cases inss) auto
    from Cons.IH [OF rest] obtain rs where
      "map parseLine ls = map Inr rs" "inss' = map the (filter (\<lambda>r. r \<noteq> None) rs)"
      by blast
    with inss l have
      "map parseLine (l # ls) = map Inr (Some i # rs) \<and> inss = map the (filter (\<lambda>r. r \<noteq> None) (Some i # rs))"
      by simp
    then show ?thesis by blast
  qed
qed

subsection \<open>The hex field of a word in range\<close>

text \<open>
  Whenever the word that the encoder computes for a parsed line is a natural number,
  it is below \<open>16 ^ 4\<close> and the hex field is its four upper-case digits.
\<close>

lemma hex_field_of_nonnegative_word:
  assumes "parseLine line = Inr (Some ins)"
    and "tokens line = Some (name, operands)"
    and "map_of PATTERNS name = Some (data, act)"
    and "map_of INSTRUCTION_NUMBERS name = Some c"
    and "add_operands (shift_left c 12)
           (case registers data of None \<Rightarrow> 0 | Some n \<Rightarrow> n)
           (case immediate data of None \<Rightarrow> False | Some b \<Rightarrow> b) (args ins) = Num (int n)"
  shows "n < 65536 \<and>
     hex ins = toUpperCase [hex_digit (n div 4096), hex_digit (n div 256 mod 16),
                            hex_digit (n div 16 mod 16), hex_digit (n mod 16)]"
proof -
  have own: "get_property INSTRUCTION_NUMBERS name = Own c"
    using assms(4) by (simp add: get_property_def)
  have "parseLine line =
     (case match_regex (makeRegex data) operands of
        None \<Rightarrow> Inl (Unable_to_parse_arguments name operands)
      | Some groups \<Rightarrow>
          (case toHex (add_operands (shift_left c 12)
                    (case registers data of None \<Rightarrow> 0 | Some n \<Rightarrow> n)
                    (case immediate data of None \<Rightarrow> False | Some b \<Rightarrow> b)
                    (map parseInt groups)) 4 of
             Inl e \<Rightarrow> Inl e
           | Inr h \<Rightarrow> Inr (Some \<lparr>args = map parseInt groups, evaluate = act, hex = toUpperCase h\<rparr>)))"
    unfolding parseLine_def parseLine_with_known [OF assms(2,3)] own ToNumber.simps
    using instruction_number_in_range [of name, unfolded own ToNumber.simps] by simp
  with assms(1) obtain groups h where
    h: "toHex (add_operands (shift_left c 12)
           (case registers data of None \<Rightarrow> 0 | Some n \<Rightarrow> n)
           (case immediate data of None \<Rightarrow> False | Some b \<Rightarrow> b)
           (map parseInt groups)) 4 = Inr h" and
    ins: "ins = \<lparr>args = map parseInt groups, evaluate = act, hex = toUpperCase h\<rparr>"
    by (auto split: option.splits sum.splits)
  from h ins assms(5) have t: "toHex (Num (int n)) 4 = Inr h"
    by simp
  then have n: "n < 65536"
    by (simp add: toHex_def split: if_splits)
  from toHex_word [OF n] t ins show ?thesis
    using n by simp
qed

section \<open>The word encoder\<close>

text \<open>
  C2. The four documented examples: \<open>add R1 R2 R3\<close> is encoded as \<open>4123\<close>,
  \<open>subt R0 R1 R2\<close> as \<open>5012\<close>, \<open>halt\<close> as \<open>F000\<close> and \<open>mul R1 R2 R3\<close> as \<open>8123\<close>.
\<close>

theorem documented_examples:
  "parseLine (js ''add R1 R2 R3'') =
     Inr (Some \<lparr>args = [Num 1, Num 2, Num 3], evaluate = Add, hex = js ''4123''\<rparr>) \<and>
   parseLine (js ''subt R0 R1 R2'') =
     Inr (Some \<lparr>args = [Num 0, Num 1, Num 2], evaluate = Subt, hex = js ''5012''\<rparr>) \<and>
   parseLine (js ''halt'') =
     Inr (Some \<lparr>args = [], evaluate = Halt, hex = js ''F000''\<rparr>) \<and>
   parseLine (js ''mul R1 R2 R3'') =
     Inr (Some \<lparr>args = [Num 1, Num 2, Num 3], evaluate = Mul, hex = js ''8123''\<rparr>)"
  by (simp add: eval_defs)

text \<open>
  C1. The hex field of a parsed line is meant to be the encoded word as exactly four
  upper-case hexadecimal digits. \<open>toHex\<close> rejects a word of \<open>16 ^ 4\<close> or more, but not
  a negative one: in \<open>add R8388608 R0 R0\<close> the shift \<open>8388608 << 8\<close> overflows 32 bits to
  \<open>-2147483648\<close>, the word is \<open>-2147467264\<close>, and the line parses with the nine
  characters \<open>-7FFFC000\<close> as its hex field. (For a word that is not negative,
  \<open>hex_field_of_nonnegative_word\<close> above gives the four digits.)
\<close>

theorem hex_of_negative_word:
  "parseLine (js ''add R8388608 R0 R0'') =
     Inr (Some \<lparr>args = [Num 8388608, Num 0, Num 0], evaluate = Add, hex = js ''-7FFFC000''\<rparr>) \<and>
   add_operands (shift_left (Num 4) 12) 3 False [Num 8388608, Num 0, Num 0] = Num (- 2147467264) \<and>
   shift_left (Num 8388608) 8 = Num (- 2147483648)"
  by (simp add: eval_defs)


text \<open>
  C3, as amended. Take a line that parses under a mnemonic of the table with numeric
  code \<open>k\<close>. Whenever its word is a natural number \<open>n\<close>, the hex field is the four
  upper-case hexadecimal digits of \<open>n\<close>, so its first digit reads back as \<open>n div 4096\<close>:
  it is the code of the mnemonic exactly when the operands leave the top four bits of
  the word alone (\<open>n div 4096 = k\<close>). Operands that fit their fields (every register
  below 16, the immediate below \<open>16 ^ (3 - registers)\<close>) always give such a word.
\<close>

theorem opcode_round_trip:
  assumes "parseLine line = Inr (Some ins)"
    and "tokens line = Some (name, operands)"
    and "map_of PATTERNS name = Some (data, act)"
    and "map_of INSTRUCTION_NUMBERS name = Some (Num (int k))"
  shows "(\<forall>n. encoded_word (Num (int k)) data (args ins) = Num (int n) \<longrightarrow>
            map hex_digit_value (hex ins) =
              [Some (n div 4096), Some (n div 256 mod 16), Some (n div 16 mod 16), Some (n mod 16)] \<and>
            (hex_digit_value (hd (hex ins)) = Some k \<longleftrightarrow> n div 4096 = k)) \<and>
         (operands_fit data (args ins) \<longrightarrow>
            (\<exists>n. encoded_word (Num (int k)) data (args ins) = Num (int n) \<and> n div 4096 = k))"
proof (intro conjI allI impI)
  fix n
  assume w: "encoded_word (Num (int k)) data (args ins) = Num (int n)"
  from hex_field_of_nonnegative_word [OF assms w [unfolded encoded_word_def]]
  have n: "n < 65536" and
    h: "hex ins = toUpperCase (map hex_digit [n div 4096, n div 256 mod 16, n div 16 mod 16, n mod 16])"
    by simp_all
  from n have "list_all (\<lambda>d. d < 16) [n div 4096, n div 256 mod 16, n div 16 mod 16, n mod 16]"
    by simp
  from hex_digit_value_toUpperCase [OF this] h show digits:
    "map hex_digit_value (hex ins) =
       [Some (n div 4096), Some (n div 256 mod 16), Some (n div 16 mod 16), Some (n mod 16)]"
    by simp
  then have "hex_digit_value (hd (hex ins)) = Some (n div 4096)"
    by (cases "hex ins") auto
  then show "hex_digit_value (hd (hex ins)) = Some k \<longleftrightarrow> n div 4096 = k"
    by simp
next
  assume fit: "operands_fit data (args ins)"
  have k: "k < 16"
    using INSTRUCTION_NUMBERS_range [OF assms(4)] by simp
  from parsed_groups [OF assms(1-3)] obtain groups where
    m: "match_regex (makeRegex data) operands = Some groups" and a: "args ins = map parseInt groups"
    by blast
  have len: "length (args ins) = length (makeRegex data)"
    using match_regex_length [OF m] a by simp
  from add_operands_fit [OF PATTERNS_shapes [OF assms(3)] len fit k] obtain low where
    low: "low < 4096" and
    w: "add_operands (shift_left (Num (int k)) 12)
         (case registers data of None \<Rightarrow> 0 | Some n \<Rightarrow> n)
         (case immediate data of None \<Rightarrow> False | Some b \<Rightarrow> b)
         (args ins) = Num (int (k * 4096 + low))"
    by blast
  from low have "(k * 4096 + low) div 4096 = k"
    by simp
  with w show "\<exists>n. encoded_word (Num (int k)) data (args ins) = Num (int n) \<and> n div 4096 = k"
    unfolding encoded_word_def by blast
qed

theorem opcode_round_trip_witness:
  "parseLine (js ''mov4 R2 255'') =
     Inr (Some \<lparr>args = [Num 2, Num 255], evaluate = Mov4, hex = js ''32FF''\<rparr>) \<and>
   operands_fit \<lparr>registers = Some 1, immediate = Some True\<rparr> [Num 2, Num 255] \<and>
   encoded_word (Num 3) \<lparr>registers = Some 1, immediate = Some True\<rparr> [Num 2, Num 255] = Num 13055 \<and>
   map hex_digit_value (js ''32FF'') = [Some 3, Some 2, Some 15, Some 15] \<and>
   parseLine (js ''mov1 R0 4095'') =
     Inr (Some \<lparr>args = [Num 0, Num 4095], evaluate = Mov1, hex = js ''0FFF''\<rparr>) \<and>
   encoded_word (Num 0) \<lparr>registers = Some 1, immediate = Some True\<rparr> [Num 0, Num 4095] = Num 4095 \<and>
   hex_digit_value (hd (js ''0FFF'')) = Some 0 \<and>
   (\<exists>n. encoded_word (Num 3) \<lparr>registers = Some 1, immediate = Some True\<rparr> [Num 2, Num 255] =
        Num (int n) \<and> n div 4096 = 3)"
proof -
  have p: "parseLine (js ''mov4 R2 255'') =
     Inr (Some \<lparr>args = [Num 2, Num 255], evaluate = Mov4, hex = js ''32FF''\<rparr>)"
    by (simp add: eval_defs)
  have t: "tokens (js ''mov4 R2 255'') = Some (js ''mov4'', js ''R2 255'')"
    by (simp add: eval_defs tokens_def)
  have d: "map_of PATTERNS (js ''mov4'') = Some (\<lparr>registers = Some 1, immediate = Some True\<rparr>, Mov4)"
    by (simp add: eval_defs)
  have c: "map_of INSTRUCTION_NUMBERS (js ''mov4'') = Some (Num (int 3))"
    by (simp add: eval_defs)
  have w: "encoded_word (Num (int 3)) \<lparr>registers = Some 1, immediate = Some True\<rparr>
     (args \<lparr>args = [Num 2, Num 255], evaluate = Mov4, hex = js ''32FF''\<rparr>) = Num (int 13055)"
    by (simp add: eval_defs encoded_word_def)
  have f: "operands_fit \<lparr>registers = Some 1, immediate = Some True\<rparr> [Num 2, Num 255]"
    by (simp add: operands_fit_def)
  have p': "parseLine (js ''mov1 R0 4095'') =
     Inr (Some \<lparr>args = [Num 0, Num 4095], evaluate = Mov1, hex = js ''0FFF''\<rparr>)"
    by (simp add: eval_defs)
  have t': "tokens (js ''mov1 R0 4095'') = Some (js ''mov1'', js ''R0 4095'')"
    by (simp add: eval_defs tokens_def)
  have d': "map_of PATTERNS (js ''mov1'') = Some (\<lparr>registers = Some 1, immediate = Some True\<rparr>, Mov1)"
    by (simp add: eval_defs)
  have c': "map_of INSTRUCTION_NUMBERS (js ''mov1'') = Some (Num (int 0))"
    by (simp add: eval_defs)
  have w': "encoded_word (Num (int 0)) \<lparr>registers = Some 1, immediate = Some True\<rparr>
     (args \<lparr>args = [Num 0, Num 4095], evaluate = Mov1, hex = js ''0FFF''\<rparr>) = Num (int 4095)"
    by (simp add: eval_defs encoded_word_def)
  have f': "operands_fit \<lparr>registers = Some 1, immediate = Some True\<rparr>
     (args \<lparr>args = [Num 2, Num 255], evaluate = Mov4, hex = js ''32FF''\<rparr>)"
    using f by simp
  from opcode_round_trip [OF p t d c, THEN conjunct1, rule_format, OF w]
    opcode_round_trip [OF p' t' d' c', THEN conjunct1, rule_format, OF w']
    opcode_round_trip [OF p t d c, THEN conjunct2, rule_format, OF f'] p f w p' w'
  show ?thesis
    by simp
qed

text \<open>
  C3 without the condition on the word: the first digit can be another opcode's.
  \<open>jz R31 0\<close> is encoded as \<open>7F00\<close> (the word is 32512, and \<open>32512 div 4096 = 7\<close>), and
  the code of \<open>jz\<close> is 6.
\<close>

theorem opcode_round_trip_counterexample:
  "parseLine (js ''jz R31 0'') =
     Inr (Some \<lparr>args = [Num 31, Num 0], evaluate = Jz, hex = js ''7F00''\<rparr>) \<and>
   map_of INSTRUCTION_NUMBERS (js ''jz'') = Some (Num 6) \<and>
   hex_digit_value (hd (js ''7F00'')) \<noteq> Some 6"
  by (simp add: eval_defs hex_digit_value_def)

section \<open>Errors\<close>

text \<open>
  C7. A line whose mnemonic is not a key of \<open>PATTERNS\<close> is meant to raise the
  unknown-instruction error, which names the mnemonic. The test \<open>instruction in
  PATTERNS\<close> also accepts the members that the table inherits from \<open>Object.prototype\<close>:
  the line \<open>toString\<close> passes it and ends in a \<open>TypeError\<close> instead. (For a line that
  \<open>COMMAND\<close> splits into a mnemonic and operands, \<open>unknown_mnemonic\<close> gives the
  unknown-instruction error when the mnemonic is neither a key of the table nor one
  of those members, and \<open>operand_mismatch\<close> the operand error when the operands do not
  match the shape; a line with a line terminator inside is not split and raises the
  instruction-name error.)
\<close>

theorem inherited_mnemonic_not_unknown:
  "tokens (js ''toString'') = Some (js ''toString'', []) \<and>
   map_of PATTERNS (js ''toString'') = None \<and>
   parseLine (js ''toString'') = Inl TypeError"
  by (simp add: eval_defs tokens_def)




section \<open>The assembler\<close>

text \<open>
  C8. \<open>parse\<close> returns the instructions of exactly the lines that are not blank and not
  only a comment, in the order of the lines: it returns a list \<open>inss\<close> precisely when the
  lines that are not blank, in order, parse to the members of \<open>inss\<close>. A line parses to
  \<open>null\<close> precisely when it is blank or only a comment.
\<close>

theorem parse_keeps_order:
  "(parse text0 = Inr inss \<longleftrightarrow>
      map parseLine (filter (\<lambda>l. \<not> blank_line l) (split 10 text0)) = map (\<lambda>i. Inr (Some i)) inss) \<and>
   (parseLine l = Inr None \<longleftrightarrow> blank_line l)"
proof -
  have "parse text0 = Inr inss \<longleftrightarrow>
     (\<exists>rs. map_parseLine (split 10 text0) = Inr rs \<and> inss = map the (filter (\<lambda>r. r \<noteq> None) rs))"
    by (auto simp: parse_def split: sum.splits)
  also have "\<dots> \<longleftrightarrow>
     (\<exists>rs. map parseLine (split 10 text0) = map Inr rs \<and> inss = map the (filter (\<lambda>r. r \<noteq> None) rs))"
    by (simp only: map_parseLine_Inr)
  also have "\<dots> \<longleftrightarrow>
     map parseLine (filter (\<lambda>l. \<not> blank_line l) (split 10 text0)) = map (\<lambda>i. Inr (Some i)) inss"
    using kept_lines kept_lines_conv by blast
  finally show ?thesis
    by (simp add: parseLine_None_iff)
qed

theorem parse_keeps_order_witness:
  "parse (js ''add R1 R2 R3'' @ [10] @ js ''  # only a comment'' @ [10] @ [10] @ js ''halt # stop'') =
     Inr [\<lparr>args = [Num 1, Num 2, Num 3], evaluate = Add, hex = js ''4123''\<rparr>,
          \<lparr>args = [], evaluate = Halt, hex = js ''F000''\<rparr>]"
proof -
  have s: "split 10 (js ''add R1 R2 R3'' @ [10] @ js ''  # only a comment'' @ [10] @ [10] @ js ''halt # stop'') =
      [js ''add R1 R2 R3'', js ''  # only a comment'', [], js ''halt # stop'']"
    by (simp add: js_def)
  have b: "\<not> blank_line (js ''add R1 R2 R3'')" "blank_line (js ''  # only a comment'')" "blank_line []"
      "\<not> blank_line (js ''halt # stop'')"
    by (simp_all add: blank_line_def js_def char_defs)
  have p: "parseLine (js ''add R1 R2 R3'') =
      Inr (Some \<lparr>args = [Num 1, Num 2, Num 3], evaluate = Add, hex = js ''4123''\<rparr>)"
    "parseLine (js ''halt # stop'') = Inr (Some \<lparr>args = [], evaluate = Halt, hex = js ''F000''\<rparr>)"
    by (simp_all add: eval_defs)
  show ?thesis
    by (rule parse_keeps_order [THEN conjunct1, THEN iffD2]) (unfold s, simp add: b p)
qed

section \<open>The semantic actions\<close>

text \<open>
  C4. For every register index \<open>r\<close> and target \<open>t\<close>: when \<open>REG[r]\<close> is 0 the action \<open>jz\<close>
  leaves the program counter (and the rest of the state) as it was; when \<open>REG[r]\<close> is
  anything else, it sets the program counter to \<open>t\<close>. The jump fires on non-zero.
\<close>

theorem jz_jumps_on_nonzero:
  "(REG s r = Some (Num 0) \<longrightarrow> jz r t s = s) \<and>
   (REG s r \<noteq> Some (Num 0) \<longrightarrow> COUNTER (jz r t s) = t \<and> REG (jz r t s) = REG s
      \<and> MEM (jz r t s) = MEM s \<and> OUT (jz r t s) = OUT s)"
  by (simp add: jz_def)

theorem jz_jumps_on_nonzero_witness:
  "jz (Num 1) (Num 7) initial_state = initial_state \<and>
   COUNTER (jz (Num 1) (Num 7) (initial_state\<lparr>REG := (REG initial_state)(Num 1 \<mapsto> Num 5)\<rparr>)) = Num 7"
  using jz_jumps_on_nonzero [of initial_state "Num 1" "Num 7"]
    jz_jumps_on_nonzero [of "initial_state\<lparr>REG := (REG initial_state)(Num 1 \<mapsto> Num 5)\<rparr>" "Num 1" "Num 7"]
  by (simp add: initial_state_def)

text \<open>
  C5. For every address \<open>a\<close> and immediate \<open>m\<close>, the action \<open>mov4\<close> writes \<open>m\<close> to memory
  slot \<open>a\<close> and to no other slot: the memory afterwards is the memory before with slot
  \<open>a\<close> set to \<open>m\<close>. It leaves the register file (and the output log and the program
  counter) unchanged: it writes memory, not a register.
\<close>

theorem mov4_writes_memory:
  "MEM (mov4 a m s) = (MEM s)(a \<mapsto> m) \<and>
   MEM (mov4 a m s) a = Some m \<and> REG (mov4 a m s) = REG s \<and>
   OUT (mov4 a m s) = OUT s \<and> COUNTER (mov4 a m s) = COUNTER s"
  by (simp add: mov4_def)

text \<open>
  C10. \<open>TIME\<close> is the constant 0, so \<open>readm\<close> writes its immediate to index 0 of the
  output log and touches no other index. After any non-empty run of \<open>readm\<close> calls the
  log is the one before the run with the last immediate at index 0; from the initial
  state it holds the last immediate at index 0 and nothing else.
\<close>

theorem readm_overwrites_index_0:
  "TIME = Num 0 \<and>
   OUT (readm m s) = (OUT s)(Num 0 \<mapsto> m) \<and>
   (imms \<noteq> [] \<longrightarrow>
      OUT (readm_all imms s) = (OUT s)(Num 0 \<mapsto> last imms) \<and>
      OUT (readm_all imms initial_state) = [Num 0 \<mapsto> last imms])"
proof -
  have step: "OUT (readm_all imms s) = (if imms = [] then OUT s else (OUT s)(Num 0 \<mapsto> last imms))"
    for s
    by (induction imms arbitrary: s) (simp_all add: readm_all_def readm_def TIME_def)
  show ?thesis
    by (simp add: step TIME_def readm_def initial_state_def)
qed

theorem readm_overwrites_index_0_witness:
  "OUT (readm_all [Num 3, Num 4, Num 5] initial_state) = [Num 0 \<mapsto> Num 5]"
  using readm_overwrites_index_0 [of "Num 0" initial_state "[Num 3, Num 4, Num 5]",
      THEN conjunct2, THEN conjunct2]
  by (simp add: initial_state_def)

end
